theory Spec2Isabelle
  imports Complex_Main
begin

section \<open>The capture session controller of static/js/face-recognition.js\<close>

text \<open>
  The controller is the object \<open>window.FaceRecognition\<close>. Its fields, the page elements
  it addresses by id and the parts of the browser it drives (media streams, interval
  timers, outstanding promises, the toast sink, the console) are collected in one
  record; every method is a function from state to state.

  Scope of the model:
  \<^item> the page provides every element the controller looks up by id, so a guard of
    the form \<open>if (el)\<close> passes and no dereference of a missing element occurs;
  \<^item> texts that the source writes in Chinese are constructors of a datatype, named
    after their meaning;
  \<^item> a promise is split into the call that creates it (the request is appended to
    \<open>pending\<close>) and the event that settles it (the handlers run, the request leaves
    \<open>pending\<close>); the browser runs one handler at a time, to completion;
  \<^item> what the camera and the servers answer is an argument of the event.
  The methods modelled are those of the capture session: \<open>startCamera\<close>,
  \<open>stopCamera\<close>, \<open>startDetection\<close>, \<open>stopDetection\<close>, \<open>detectFaces\<close> with its two
  variants, \<open>capturePhoto\<close>, \<open>registerFace\<close>, \<open>recognizeAttendance\<close>,
  \<open>loadFaceData\<close>, \<open>renderFaceDataTable\<close>, \<open>deleteFaceData\<close> and \<open>playSound\<close>. Of
  \<open>loadModels\<close> only the outcome is kept (the field \<open>faceDetectionModel\<close>), of
  \<open>bindEvents\<close> the scopes of its handlers; \<open>handleImageUpload\<close> is left out.
\<close>

subsection \<open>Data\<close>

type_synonym image = string

datatype severity = Info | Success | Warning | Danger

datatype notice =
    CameraDenied            \<comment> \<open>line 179\<close>
  | CameraUnsupported       \<comment> \<open>line 182\<close>
  | StartCameraFirst        \<comment> \<open>lines 206, 362, 441\<close>
  | PhotoTaken              \<comment> \<open>line 388\<close>
  | PhotoRequired           \<comment> \<open>line 397\<close>
  | UserRequired            \<comment> \<open>line 402\<close>
  | RegisterDone            \<comment> \<open>line 418\<close>
  | RegisterFailed          \<comment> \<open>line 428, the default text\<close>
  | NoFaceFound             \<comment> \<open>line 446\<close>
  | RecognizeDone string string   \<comment> \<open>line 474, with action and time\<close>
  | RecognizeRejected       \<comment> \<open>line 493, the default text\<close>
  | RecognizeFailed         \<comment> \<open>line 500, the default text\<close>
  | DeleteDone              \<comment> \<open>line 620\<close>
  | DeleteFailed            \<comment> \<open>line 624, the default text\<close>
  | ServerText string       \<comment> \<open>a text supplied by the server\<close>

datatype log_entry = CameraError | DetectionError | RosterLoadError

datatype sound = SuccessSound | ErrorSound

datatype status_text =
    PageText string         \<comment> \<open>what the page shows before the controller writes\<close>
  | CameraStarted | CameraStopped | DetectingNow | DetectionStopped

datatype caption = PageCaption string | RegisteringCaption | RecognizingCaption

record btn =
  disabled :: bool
  spinner :: bool
  caption :: caption

text \<open>
  A face as the remote detector reports it (\<open>x, y, width, height, name\<close>), or a
  detection of the local model: its box and the expression scores in key order. Both
  kinds are stored in \<open>currentFaces\<close>. An answer of the remote detector holds faces
  of the first kind only, one of the local model detections only; the drawing functions
  below draw just the box for a value of the other kind.
\<close>

datatype face =
    Face real real real real "string option"
  | Detection real real real real "(string \<times> real) list"

datatype paint = Frame | Box real real real real | Label string real real

record recognition =
  success :: bool
  rname :: string
  employee_id :: string
  action :: string
  rtime :: string
  message :: "string option"

datatype row = Row string string string string string
  \<comment> \<open>id, user_id, name, image_url, created_at\<close>

datatype roster_table = PageTable | NoDataRow | Rows "row list"

datatype request =
    DetectReq image                     \<comment> \<open>POST /api/v1/face/detect\<close>
  | LocalDetectReq                      \<comment> \<open>faceapi.detectAllFaces\<close>
  | RecognizeReq image caption          \<comment> \<open>POST /api/v1/face/recognize; the caption is \<open>originalText\<close>\<close>
  | RegisterReq string image caption    \<comment> \<open>POST /api/v1/face/register\<close>
  | RosterGet                           \<comment> \<open>GET /api/v1/face/data\<close>
  | RosterDelete string                 \<comment> \<open>DELETE /api/v1/face/data/id\<close>

text \<open>
  How a promise settles: fulfilled with a payload, or rejected; for a rejected HTTP call
  the argument is \<open>error.response?.data?.detail\<close>.
\<close>

datatype 'a reply = Fulfilled 'a | Rejected "string option"

datatype media_answer = Unsupported | Denied | Granted nat

record state =
  stream :: "nat option"              \<comment> \<open>\<open>this.stream\<close>: the MediaStream held\<close>
  video_src :: "nat option"           \<comment> \<open>\<open>this.video.srcObject\<close>\<close>
  live :: "nat list"                  \<comment> \<open>the streams whose tracks are running\<close>
  faceDetectionModel :: bool          \<comment> \<open>the local model is loaded\<close>
  currentFaces :: "face list"
  isDetecting :: bool
  detectionInterval :: "nat option"
  timers :: "nat list"                \<comment> \<open>the interval timers the browser is running\<close>
  timer_seq :: nat                    \<comment> \<open>the number of timers created so far\<close>
  canvas_w :: nat
  canvas_h :: nat
  painted :: "paint list"
  start_camera_off :: bool            \<comment> \<open>\<open>disabled\<close> of the button \<open>start-camera\<close>\<close>
  stop_camera_off :: bool
  camera_status :: status_text
  start_detection_off :: bool
  stop_detection_off :: bool
  detection_status :: status_text
  face_count :: "nat option"          \<comment> \<open>None: the page's own text\<close>
  photo_preview :: image
  face_image_data :: image
  user_id :: string
  register_btn :: btn
  recognize_btn :: btn
  recognition_result :: "recognition option"
  face_table :: roster_table
  toasts :: "(notice \<times> severity) list"
  console :: "log_entry list"
  sounds :: "sound list"
  pending :: "request list"

subsection \<open>The notification sink\<close>

definition showToast :: "notice \<Rightarrow> severity \<Rightarrow> state \<Rightarrow> state" where
  "showToast m sev s = s\<lparr>toasts := toasts s @ [(m, sev)]\<rparr>"

definition console_error :: "log_entry \<Rightarrow> state \<Rightarrow> state" where
  "console_error e s = s\<lparr>console := console s @ [e]\<rparr>"

text \<open>\<open>detail || fallback\<close>: an absent or empty server text gives the fallback.\<close>

definition detail_or :: "string option \<Rightarrow> notice \<Rightarrow> notice" where
  "detail_or d fallback =
     (case d of None \<Rightarrow> fallback | Some m \<Rightarrow> if m = [] then fallback else ServerText m)"

subsection \<open>Detection loop: stopDetection\<close>

text \<open>
  \<open>setInterval\<close> hands out a fresh positive id; \<open>clearInterval\<close> stops the timer of
  that id. A stored id is therefore truthy, and \<open>if (this.detectionInterval)\<close> tests
  for \<open>null\<close>.
\<close>

definition stopDetection :: "state \<Rightarrow> state" where
  "stopDetection s =
     (let s1 = s\<lparr>isDetecting := False\<rparr>;
          s2 = (case detectionInterval s1 of
                  None \<Rightarrow> s1
                | Some t \<Rightarrow> s1\<lparr>timers := removeAll t (timers s1), detectionInterval := None\<rparr>)
      in s2\<lparr>painted := [],
             start_detection_off := False,
             stop_detection_off := True,
             detection_status := DetectionStopped\<rparr>)"

subsection \<open>Device manager: startCamera, stopCamera\<close>

text \<open>
  \<open>startCamera\<close> changes nothing when it is called; all its effects happen when
  \<open>getUserMedia\<close> answers, so the call and the answer are one event.
\<close>

definition startCamera :: "media_answer \<Rightarrow> state \<Rightarrow> state" where
  "startCamera a s =
     (case a of
        Unsupported \<Rightarrow> showToast CameraUnsupported Warning s
      | Denied \<Rightarrow> showToast CameraDenied Danger (console_error CameraError s)
      | Granted h \<Rightarrow>
          s\<lparr>live := live s @ [h],
            stream := Some h,
            video_src := Some h,
            start_camera_off := True,
            stop_camera_off := False,
            camera_status := CameraStarted\<rparr>)"

definition stopCamera :: "state \<Rightarrow> state" where
  "stopCamera s =
     (case stream s of
        None \<Rightarrow> s
      | Some h \<Rightarrow>
          (stopDetection (s\<lparr>live := removeAll h (live s), video_src := None, stream := None\<rparr>))
            \<lparr>start_camera_off := False,
             stop_camera_off := True,
             camera_status := CameraStopped\<rparr>)"

subsection \<open>Detection loop: startDetection\<close>

text \<open>The argument is \<open>(video.videoWidth, video.videoHeight)\<close> as read at the call.\<close>

definition startDetection :: "nat \<times> nat \<Rightarrow> state \<Rightarrow> state" where
  "startDetection vd s =
     (if stream s = None then showToast StartCameraFirst Warning s
      else s\<lparr>isDetecting := True,
             start_detection_off := True,
             stop_detection_off := False,
             detection_status := DetectingNow,
             canvas_w := fst vd,
             canvas_h := snd vd,
             painted := [],
             detectionInterval := Some (Suc (timer_seq s)),
             timers := timers s @ [Suc (timer_seq s)],
             timer_seq := Suc (timer_seq s)\<rparr>)"

subsection \<open>Detection loop: one tick and the answer to it\<close>

text \<open>
  \<open>detectFacesWithBackend\<close>, the part that runs in the tick: the current video frame
  is drawn, encoded (the argument \<open>frame\<close> is that encoding) and posted.
\<close>

definition detectFacesWithBackend :: "image \<Rightarrow> state \<Rightarrow> state" where
  "detectFacesWithBackend frame s =
     s\<lparr>painted := painted s @ [Frame], pending := pending s @ [DetectReq frame]\<rparr>"

text \<open>\<open>faces.forEach\<close> of lines 332 to 346: a box, and the name when it is not empty.\<close>

fun draw_faces :: "face list \<Rightarrow> paint list" where
  "draw_faces [] = []"
| "draw_faces (Face x y w h nm # fs) =
     Box x y w h #
     (case nm of
        None \<Rightarrow> draw_faces fs
      | Some n \<Rightarrow> if n = [] then draw_faces fs else Label n x (y - 5) # draw_faces fs)"
| "draw_faces (Detection x y w h es # fs) = Box x y w h # draw_faces fs"

text \<open>
  The handlers of the post: \<open>then\<close> (\<open>response.data.faces || []\<close> is the payload) and
  \<open>catch\<close>.
\<close>

definition backend_then :: "face list option \<Rightarrow> state \<Rightarrow> state" where
  "backend_then payload s =
     (let faces = (case payload of None \<Rightarrow> [] | Some fs \<Rightarrow> fs)
      in s\<lparr>painted := Frame # draw_faces faces,
            currentFaces := faces,
            face_count := Some (length faces)\<rparr>)"

definition backend_settled :: "request \<Rightarrow> face list option reply \<Rightarrow> state \<Rightarrow> state" where
  "backend_settled rq r s =
     (let s1 = s\<lparr>pending := remove1 rq (pending s)\<rparr>
      in case r of
           Fulfilled payload \<Rightarrow> backend_then payload s1
         | Rejected d \<Rightarrow> console_error DetectionError s1)"

text \<open>
  \<open>detectFacesWithFaceAPI\<close>. The reduce of lines 286 to 288 has no initial value: it
  throws on an object without keys, otherwise it keeps the later key unless the earlier
  score is greater.
\<close>

fun max_expression :: "(string \<times> real) list \<Rightarrow> string option" where
  "max_expression [] = None"
| "max_expression (e # es) =
     Some (fst (foldl (\<lambda>a b. if snd a > snd b then a else b) e es))"

text \<open>
  \<open>detections.forEach\<close> of lines 276 to 293: what gets drawn, and whether the loop ran
  to its end (a throw leaves it at once).
\<close>

fun draw_detections :: "face list \<Rightarrow> paint list \<times> bool" where
  "draw_detections [] = ([], True)"
| "draw_detections (Detection x y w h es # ds) =
     (case max_expression es of
        None \<Rightarrow> ([Box x y w h], False)
      | Some e \<Rightarrow>
          (let (ps, ok) = draw_detections ds
           in (Box x y w h # Label e x (y - 5) # ps, ok)))"
| "draw_detections (Face x y w h nm # ds) =
     (let (ps, ok) = draw_detections ds in (Box x y w h # ps, ok))"

definition detectFacesWithFaceAPI :: "state \<Rightarrow> state" where
  "detectFacesWithFaceAPI s = s\<lparr>pending := pending s @ [LocalDetectReq]\<rparr>"

text \<open>What follows the \<open>await\<close>: the rest of the \<open>try\<close> block, or the \<open>catch\<close> block.\<close>

definition faceapi_settled :: "face list reply \<Rightarrow> state \<Rightarrow> state" where
  "faceapi_settled r s =
     (let s1 = s\<lparr>pending := remove1 LocalDetectReq (pending s)\<rparr>
      in case r of
           Rejected d \<Rightarrow> console_error DetectionError s1
         | Fulfilled detections \<Rightarrow>
             (let (ps, ok) = draw_detections detections;
                  s2 = s1\<lparr>painted := ps\<rparr>
              in if ok
                 then s2\<lparr>currentFaces := detections, face_count := Some (length detections)\<rparr>
                 else console_error DetectionError s2))"

definition detectFaces :: "image \<Rightarrow> state \<Rightarrow> state" where
  "detectFaces frame s =
     (if faceDetectionModel s then detectFacesWithFaceAPI s
      else detectFacesWithBackend frame s)"

text \<open>The interval timer \<open>t\<close> fires: its callback runs if the timer is still running.\<close>

definition tick :: "nat \<Rightarrow> image \<Rightarrow> state \<Rightarrow> state" where
  "tick t frame s = (if t \<in> set (timers s) then detectFaces frame s else s)"

subsection \<open>capturePhoto\<close>

definition capturePhoto :: "nat \<times> nat \<Rightarrow> image \<Rightarrow> state \<Rightarrow> state" where
  "capturePhoto vd frame s =
     (if stream s = None then showToast StartCameraFirst Warning s
      else showToast PhotoTaken Success
             (s\<lparr>canvas_w := fst vd,
                canvas_h := snd vd,
                painted := [Frame],
                photo_preview := frame,
                face_image_data := frame\<rparr>))"

subsection \<open>The roster: loadFaceData, renderFaceDataTable, deleteFaceData\<close>

definition loadFaceData :: "state \<Rightarrow> state" where
  "loadFaceData s = s\<lparr>pending := pending s @ [RosterGet]\<rparr>"

definition renderFaceDataTable :: "row list \<Rightarrow> state \<Rightarrow> state" where
  "renderFaceDataTable faceData s =
     (if faceData = [] then s\<lparr>face_table := NoDataRow\<rparr> else s\<lparr>face_table := Rows faceData\<rparr>)"

definition roster_settled :: "row list option reply \<Rightarrow> state \<Rightarrow> state" where
  "roster_settled r s =
     (let s1 = s\<lparr>pending := remove1 RosterGet (pending s)\<rparr>
      in case r of
           Fulfilled payload \<Rightarrow>
             renderFaceDataTable (case payload of None \<Rightarrow> [] | Some rows \<Rightarrow> rows) s1
         | Rejected d \<Rightarrow> console_error RosterLoadError s1)"

text \<open>The first argument is the user's answer to \<open>confirm\<close>.\<close>

definition deleteFaceData :: "bool \<Rightarrow> string \<Rightarrow> state \<Rightarrow> state" where
  "deleteFaceData confirmed faceId s =
     (if \<not> confirmed then s else s\<lparr>pending := pending s @ [RosterDelete faceId]\<rparr>)"

definition delete_settled :: "request \<Rightarrow> unit reply \<Rightarrow> state \<Rightarrow> state" where
  "delete_settled rq r s =
     (let s1 = s\<lparr>pending := remove1 rq (pending s)\<rparr>
      in case r of
           Fulfilled u \<Rightarrow> loadFaceData (showToast DeleteDone Success s1)
         | Rejected d \<Rightarrow> showToast (detail_or d DeleteFailed) Danger s1)"

subsection \<open>registerFace\<close>

definition registerFace :: "state \<Rightarrow> state" where
  "registerFace s =
     (let imageData = face_image_data s; userId = user_id s
      in if imageData = [] then showToast PhotoRequired Warning s
         else if userId = [] then showToast UserRequired Warning s
         else s\<lparr>register_btn :=
                  \<lparr>disabled = True, spinner = True, caption = RegisteringCaption\<rparr>,
                pending :=
                  pending s @ [RegisterReq userId imageData (caption (register_btn s))]\<rparr>)"

definition register_then :: "state \<Rightarrow> state" where
  "register_then s =
     loadFaceData ((showToast RegisterDone Success s)\<lparr>face_image_data := [], photo_preview := []\<rparr>)"

definition register_finally :: "caption \<Rightarrow> state \<Rightarrow> state" where
  "register_finally originalText s =
     s\<lparr>register_btn := \<lparr>disabled = False, spinner = False, caption = originalText\<rparr>\<rparr>"

definition captured_text :: "request \<Rightarrow> caption" where
  "captured_text rq =
     (case rq of
        RecognizeReq img c \<Rightarrow> c
      | RegisterReq u img c \<Rightarrow> c
      | _ \<Rightarrow> PageCaption [])"

definition register_settled :: "request \<Rightarrow> unit reply \<Rightarrow> state \<Rightarrow> state" where
  "register_settled rq r s =
     (let s1 = s\<lparr>pending := remove1 rq (pending s)\<rparr>;
          s2 = (case r of
                  Fulfilled u \<Rightarrow> register_then s1
                | Rejected d \<Rightarrow> showToast (detail_or d RegisterFailed) Danger s1)
      in register_finally (captured_text rq) s2)"

subsection \<open>recognizeAttendance\<close>

definition playSound :: "sound \<Rightarrow> state \<Rightarrow> state" where
  "playSound kind s = s\<lparr>sounds := sounds s @ [kind]\<rparr>"

definition recognizeAttendance :: "nat \<times> nat \<Rightarrow> image \<Rightarrow> state \<Rightarrow> state" where
  "recognizeAttendance vd frame s =
     (if stream s = None then showToast StartCameraFirst Warning s
      else if length (currentFaces s) = 0 then showToast NoFaceFound Warning s
      else s\<lparr>canvas_w := fst vd,
             canvas_h := snd vd,
             painted := [Frame],
             recognize_btn :=
               \<lparr>disabled = True, spinner = True, caption = RecognizingCaption\<rparr>,
             pending := pending s @ [RecognizeReq frame (caption (recognize_btn s))]\<rparr>)"

definition recognize_then :: "recognition \<Rightarrow> state \<Rightarrow> state" where
  "recognize_then result s =
     (if success result
      then playSound SuccessSound
             ((showToast (RecognizeDone (action result) (rtime result)) Success s)
                \<lparr>recognition_result := Some result\<rparr>)
      else playSound ErrorSound
             (showToast (detail_or (message result) RecognizeRejected) Warning s))"

definition recognize_catch :: "string option \<Rightarrow> state \<Rightarrow> state" where
  "recognize_catch d s =
     playSound ErrorSound (showToast (detail_or d RecognizeFailed) Danger s)"

definition recognize_finally :: "caption \<Rightarrow> state \<Rightarrow> state" where
  "recognize_finally originalText s =
     s\<lparr>recognize_btn := \<lparr>disabled = False, spinner = False, caption = originalText\<rparr>\<rparr>"

definition recognize_settled :: "request \<Rightarrow> recognition reply \<Rightarrow> state \<Rightarrow> state" where
  "recognize_settled rq r s =
     (let s1 = s\<lparr>pending := remove1 rq (pending s)\<rparr>;
          s2 = (case r of
                  Fulfilled result \<Rightarrow> recognize_then result s1
                | Rejected d \<Rightarrow> recognize_catch d s1)
      in recognize_finally (captured_text rq) s2)"

subsection \<open>Identifiers in the click handlers\<close>

text \<open>
  A handler finds a free identifier in the scopes that enclose it, innermost first, the
  global object last. The values that matter here: the window, the controller, its
  methods, and everything else.
\<close>

datatype jsval = Undefined | WindowObj | ControllerObj | Method string | Other

datatype js_error = ReferenceError | TypeError

type_synonym scope = "(string \<times> jsval) list"

text \<open>
  The global object: the names that the scripts of the repository assign on \<open>window\<close>,
  and the browser's own \<open>window\<close>, \<open>self\<close> and \<open>document\<close>.
\<close>

definition global_scope :: scope where
  "global_scope =
     [(''window'', WindowObj), (''self'', WindowObj), (''document'', Other),
      (''axios'', Other), (''faceapi'', Other), (''confirm'', Other),
      (''FaceRecognition'', ControllerObj), (''FR'', ControllerObj),
      (''App'', Other), (''AttendanceSystem'', Other), (''ATT'', Other),
      (''Utils'', Other), (''UTILS'', Other), (''Charts'', Other), (''CHARTS'', Other)]"

definition controller_methods :: "string list" where
  "controller_methods =
     [''init'', ''bindEvents'', ''loadModels'', ''initBackendAPI'', ''startCamera'',
      ''stopCamera'', ''startDetection'', ''stopDetection'', ''detectFaces'',
      ''detectFacesWithFaceAPI'', ''detectFacesWithBackend'', ''capturePhoto'',
      ''registerFace'', ''recognizeAttendance'', ''handleImageUpload'', ''loadFaceData'',
      ''renderFaceDataTable'', ''deleteFaceData'', ''playSound'']"

fun resolve :: "string \<Rightarrow> scope list \<Rightarrow> jsval option" where
  "resolve x [] = None"
| "resolve x (sc # scs) = (case map_of sc x of Some v \<Rightarrow> Some v | None \<Rightarrow> resolve x scs)"

definition get_property :: "jsval \<Rightarrow> string \<Rightarrow> jsval" where
  "get_property obj p =
     (case obj of
        ControllerObj \<Rightarrow> if p \<in> set controller_methods then Method p else Undefined
      | WindowObj \<Rightarrow> (case map_of global_scope p of Some v \<Rightarrow> v | None \<Rightarrow> Undefined)
      | _ \<Rightarrow> Undefined)"

text \<open>
  The scopes around the handler of lines 607 to 610: its own (\<open>faceId\<close>), the arrow
  function of line 606 (\<open>btn\<close>), \<open>renderFaceDataTable\<close> (\<open>faceData\<close>, \<open>tableBody\<close>),
  the global object. Those around a handler of \<open>bindEvents\<close>, for comparison: line 46
  declares \<open>self\<close>.
\<close>

definition table_handler_scopes :: "string \<Rightarrow> scope list" where
  "table_handler_scopes faceId =
     [[(''faceId'', Other)], [(''btn'', Other)],
      [(''faceData'', Other), (''tableBody'', Other)], global_scope]"

definition bindEvents_handler_scopes :: "scope list" where
  "bindEvents_handler_scopes =
     [[],
      [(''self'', ControllerObj), (''startCameraBtn'', Other), (''stopCameraBtn'', Other),
       (''startDetectionBtn'', Other), (''stopDetectionBtn'', Other), (''captureBtn'', Other),
       (''registerFaceBtn'', Other), (''recognizeAttendanceBtn'', Other),
       (''fileInput'', Other)],
      global_scope]"

text \<open>
  \<open>x.m(...)\<close> in a handler: ReferenceError when \<open>x\<close> is not found, TypeError when
  the property is not a function, otherwise the method runs.
\<close>

definition call_method ::
  "scope list \<Rightarrow> string \<Rightarrow> string \<Rightarrow> (state \<Rightarrow> state) \<Rightarrow> state \<Rightarrow> js_error + state" where
  "call_method scs x m body s =
     (case resolve x scs of
        None \<Rightarrow> Inl ReferenceError
      | Some obj \<Rightarrow>
          (case get_property obj m of
             Method f \<Rightarrow> Inr (body s)
           | _ \<Rightarrow> Inl TypeError))"

text \<open>A click on a delete button of the rendered table, with its \<open>data-id\<close>.\<close>

definition click_delete :: "bool \<Rightarrow> string \<Rightarrow> state \<Rightarrow> js_error + state" where
  "click_delete confirmed faceId s =
     call_method (table_handler_scopes faceId) ''self'' ''deleteFaceData''
       (deleteFaceData confirmed faceId) s"

text \<open>A click on the register button (lines 91 to 93).\<close>

definition click_register :: "state \<Rightarrow> js_error + state" where
  "click_register s =
     call_method bindEvents_handler_scopes ''self'' ''registerFace'' registerFace s"

text \<open>An exception that leaves a handler is reported by the browser; the page goes on.\<close>

definition after_handler :: "js_error + state \<Rightarrow> state \<Rightarrow> state" where
  "after_handler r s = (case r of Inl e \<Rightarrow> s | Inr s' \<Rightarrow> s')"

subsection \<open>The session state machine of the specification\<close>

datatype request_kind = RecognizeKind | RegisterKind | DeleteKind

datatype session_state = Idle | CameraActive | Detecting | RequestInFlight request_kind

datatype operation = Acquire media_answer | Start "nat \<times> nat" | Stop | Release

text \<open>
  The transitions that the specification lists for acquire, start, stop and release;
  \<open>None\<close> where it lists none.
\<close>

fun fsm :: "session_state \<Rightarrow> operation \<Rightarrow> session_state option" where
  "fsm Idle (Acquire (Granted h)) = Some CameraActive"
| "fsm CameraActive (Start vd) = Some Detecting"
| "fsm Detecting Stop = Some CameraActive"
| "fsm CameraActive Release = Some Idle"
| "fsm Detecting Release = Some Idle"
| "fsm _ _ = None"

definition fsm_step :: "session_state \<Rightarrow> operation \<Rightarrow> session_state" where
  "fsm_step q op = (case fsm q op of None \<Rightarrow> q | Some q' \<Rightarrow> q')"

text \<open>The session state that the controller's fields stand for.\<close>

definition session_of :: "state \<Rightarrow> session_state" where
  "session_of s =
     (case stream s of
        None \<Rightarrow> Idle
      | Some h \<Rightarrow> if isDetecting s then Detecting else CameraActive)"

fun perform :: "operation \<Rightarrow> state \<Rightarrow> state" where
  "perform (Acquire a) s = startCamera a s"
| "perform (Start vd) s = startDetection vd s"
| "perform Stop s = stopDetection s"
| "perform Release s = stopCamera s"

definition run :: "operation list \<Rightarrow> state \<Rightarrow> state" where
  "run ops s = foldl (\<lambda>s op. perform op s) s ops"

text \<open>Without a stream no detection is on record.\<close>

definition loop_on_record :: "state \<Rightarrow> bool" where
  "loop_on_record s \<longleftrightarrow> (stream s = None \<longrightarrow> \<not> isDetecting s \<and> detectionInterval s = None)"

text \<open>A page as the browser has just loaded it, and a state to compute with.\<close>

definition page0 :: state where
  "page0 =
     \<lparr>stream = None, video_src = None, live = [], faceDetectionModel = False,
      currentFaces = [], isDetecting = False, detectionInterval = None,
      timers = [], timer_seq = 0, canvas_w = 300, canvas_h = 150, painted = [],
      start_camera_off = False, stop_camera_off = True,
      camera_status = PageText ''camera off'',
      start_detection_off = False, stop_detection_off = True,
      detection_status = PageText ''not detecting'',
      face_count = None, photo_preview = [], face_image_data = [], user_id = [],
      register_btn = \<lparr>disabled = False, spinner = False, caption = PageCaption ''Register''\<rparr>,
      recognize_btn = \<lparr>disabled = False, spinner = False, caption = PageCaption ''Recognize''\<rparr>,
      recognition_result = None, face_table = PageTable,
      toasts = [], console = [], sounds = [], pending = []\<rparr>"

subsection \<open>Refusals, requests in flight, clicks\<close>

text \<open>
  An operation is refused when it notifies the user and changes nothing else: this is
  what the early returns of the source do.
\<close>

definition refused :: "state \<Rightarrow> state \<Rightarrow> bool" where
  "refused s s' \<longleftrightarrow>
     length (toasts s') = Suc (length (toasts s)) \<and> s' = s\<lparr>toasts := toasts s'\<rparr>"

text \<open>The request-shaped operations of the specification: recognize, register, roster delete.\<close>

fun request_shaped :: "request \<Rightarrow> bool" where
  "request_shaped (RecognizeReq img c) = True"
| "request_shaped (RegisterReq u img c) = True"
| "request_shaped (RosterDelete i) = True"
| "request_shaped _ = False"

definition in_flight :: "state \<Rightarrow> request list" where
  "in_flight s = filter request_shaped (pending s)"

text \<open>
  The operations as the page's buttons trigger them (lines 65 to 70): a disabled button
  dispatches no click, so \<open>startDetection\<close> runs only while \<open>start-detection\<close> is
  enabled. The other three are taken without their gate.
\<close>

fun by_button :: "operation \<Rightarrow> state \<Rightarrow> state" where
  "by_button (Start vd) s = (if start_detection_off s then s else startDetection vd s)"
| "by_button op s = perform op s"

definition click_run :: "operation list \<Rightarrow> state \<Rightarrow> state" where
  "click_run ops s = foldl (\<lambda>s op. by_button op s) s ops"

text \<open>Every running timer is the one on record, and an enabled start button means none is.\<close>

definition timers_on_record :: "state \<Rightarrow> bool" where
  "timers_on_record s \<longleftrightarrow>
     set (timers s) \<subseteq> set_option (detectionInterval s) \<and>
     (\<not> start_detection_off s \<longrightarrow> detectionInterval s = None)"

subsection \<open>States to compute with\<close>

text \<open>Camera acquired and detection started on the fresh page.\<close>

definition detecting0 :: state where
  "detecting0 = run [Acquire (Granted 1), Start (640, 480)] page0"

text \<open>One tick later, the remote detector having reported one face.\<close>

definition sampled0 :: state where
  "sampled0 =
     backend_settled (DetectReq ''frame1'') (Fulfilled (Some [Face 10 20 50 60 (Some ''Li'')]))
       (tick 1 ''frame1'' detecting0)"

text \<open>Then recognition is asked for, and the camera released before the answer.\<close>

definition asked0 :: state where
  "asked0 = recognizeAttendance (640, 480) ''frame2'' sampled0"

definition released0 :: state where
  "released0 = stopCamera asked0"

definition matched0 :: recognition where
  "matched0 =
     \<lparr>success = True, rname = ''Li'', employee_id = ''E7'', action = ''check-in'',
      rtime = ''09:00'', message = None\<rparr>"



text \<open>Two ticks of the loop, neither answered yet.\<close>

definition two_samples0 :: state where
  "two_samples0 = tick 1 ''frame2'' (tick 1 ''frame1'' detecting0)"

text \<open>A photo taken, no user chosen.\<close>

definition photo0 :: state where
  "photo0 = capturePhoto (640, 480) ''frame1'' (startCamera (Granted 1) page0)"

section \<open>Lemmas\<close>

lemma loop_on_record_perform: "loop_on_record s \<Longrightarrow> loop_on_record (perform op s)"
proof (cases op)
  case (Acquire a)
  assume "loop_on_record s"
  then show ?thesis
    using Acquire
    by (cases a) (simp_all add: loop_on_record_def startCamera_def showToast_def console_error_def)
next
  case (Start vd)
  assume "loop_on_record s"
  then show ?thesis
    using Start by (simp add: loop_on_record_def startDetection_def showToast_def)
next
  case Stop
  show ?thesis
    using Stop
    by (simp add: loop_on_record_def stopDetection_def Let_def split: option.splits)
next
  case Release
  assume "loop_on_record s"
  then show ?thesis
    using Release
    by (simp add: loop_on_record_def stopCamera_def stopDetection_def Let_def split: option.splits)
qed

lemma session_of_perform:
  "loop_on_record s \<Longrightarrow> session_of (perform op s) = fsm_step (session_of s) op"
proof (cases op)
  case (Acquire a)
  assume "loop_on_record s"
  then show ?thesis
    using Acquire
    by (cases a)
       (auto simp: loop_on_record_def session_of_def fsm_step_def startCamera_def
                   showToast_def console_error_def split: option.splits)
next
  case (Start vd)
  then show ?thesis
    by (auto simp: session_of_def fsm_step_def startDetection_def showToast_def
             split: option.splits)
next
  case Stop
  then show ?thesis
    by (auto simp: session_of_def fsm_step_def stopDetection_def Let_def split: option.splits)
next
  case Release
  then show ?thesis
    by (auto simp: session_of_def fsm_step_def stopCamera_def stopDetection_def Let_def
             split: option.splits)
qed

lemma run_snoc: "run (ops @ [op]) s = perform op (run ops s)"
  by (simp add: run_def)

lemma loop_on_record_run: "loop_on_record s \<Longrightarrow> loop_on_record (run ops s)"
  by (induction ops rule: rev_induct) (simp_all add: run_def loop_on_record_perform)

lemma session_of_run:
  "loop_on_record s \<Longrightarrow> session_of (run ops s) = foldl fsm_step (session_of s) ops"
proof (induction ops rule: rev_induct)
  case Nil
  then show ?case by (simp add: run_def)
next
  case (snoc op ops)
  have "session_of (run (ops @ [op]) s) = fsm_step (session_of (run ops s)) op"
    unfolding run_snoc using snoc.prems by (intro session_of_perform loop_on_record_run)
  then show ?case using snoc by simp
qed

lemma removeAll_only: "set xs \<subseteq> {a} \<Longrightarrow> removeAll a xs = []"
  by (induction xs) auto

text \<open>
  Clicks keep every running timer on record: the start button is disabled from
  \<open>startDetection\<close> to \<open>stopDetection\<close>.
\<close>

lemma timers_on_record_by_button:
  "timers_on_record s \<Longrightarrow> timers_on_record (by_button op s)"
proof (cases op)
  case (Acquire a)
  assume "timers_on_record s"
  then show ?thesis using Acquire
    by (cases a) (simp_all add: timers_on_record_def startCamera_def showToast_def console_error_def)
next
  case (Start vd)
  assume "timers_on_record s"
  then show ?thesis using Start
    by (auto simp: timers_on_record_def startDetection_def showToast_def)
next
  case Stop
  assume "timers_on_record s"
  then show ?thesis using Stop
    by (cases "detectionInterval s") (auto simp: timers_on_record_def stopDetection_def Let_def)
next
  case Release
  assume "timers_on_record s"
  then show ?thesis using Release
    by (cases "detectionInterval s"; cases "stream s")
       (auto simp: timers_on_record_def stopCamera_def stopDetection_def Let_def)
qed

lemma timers_on_record_page0: "timers_on_record page0"
  by (simp add: timers_on_record_def page0_def)

lemma timers_on_record_click_run:
  "timers_on_record s \<Longrightarrow> timers_on_record (click_run ops s)"
  by (induction ops rule: rev_induct) (simp_all add: click_run_def timers_on_record_by_button)

lemma loop_on_record_by_button: "loop_on_record s \<Longrightarrow> loop_on_record (by_button op s)"
  by (cases op) (simp_all add: loop_on_record_perform [where op = "Start vd" for vd, simplified]
        loop_on_record_perform [where op = "Acquire a" for a, simplified]
        loop_on_record_perform [where op = Stop, simplified]
        loop_on_record_perform [where op = Release, simplified])

lemma loop_on_record_click_run: "loop_on_record s \<Longrightarrow> loop_on_record (click_run ops s)"
  by (induction ops rule: rev_induct) (simp_all add: click_run_def loop_on_record_by_button)

text \<open>Release where every running timer is on record: none runs afterwards.\<close>

lemma stopCamera_no_timer:
  assumes "loop_on_record s" and "set (timers s) \<subseteq> set_option (detectionInterval s)"
  shows "timers (stopCamera s) = []"
proof (cases "stream s")
  case None
  with assms show ?thesis
    by (simp add: loop_on_record_def stopCamera_def)
next
  case (Some h)
  with assms(2) show ?thesis
    by (cases "detectionInterval s")
       (auto simp: stopCamera_def stopDetection_def Let_def removeAll_only)
qed

lemma no_timer_after_clicks_and_release: "timers (stopCamera (click_run ops page0)) = []"
proof -
  have "loop_on_record page0"
    by (simp add: loop_on_record_def page0_def)
  then have 1: "loop_on_record (click_run ops page0)"
    by (rule loop_on_record_click_run)
  have "timers_on_record (click_run ops page0)"
    using timers_on_record_page0 by (rule timers_on_record_click_run)
  then have 2: "set (timers (click_run ops page0))
      \<subseteq> set_option (detectionInterval (click_run ops page0))"
    by (simp add: timers_on_record_def)
  from 1 2 show ?thesis by (rule stopCamera_no_timer)
qed

subsection \<open>The states to compute with, evaluated\<close>

lemmas eval_defs =
  run_def startCamera_def stopCamera_def startDetection_def stopDetection_def
  showToast_def console_error_def page0_def detecting0_def sampled0_def asked0_def
  released0_def two_samples0_def photo0_def tick_def detectFaces_def
  detectFacesWithBackend_def detectFacesWithFaceAPI_def backend_settled_def
  backend_then_def recognizeAttendance_def capturePhoto_def Let_def

lemma detecting0_fields:
  "stream detecting0 = Some 1" "isDetecting detecting0" "timers detecting0 = [1]"
  "detectionInterval detecting0 = Some 1" "toasts detecting0 = []" "timer_seq detecting0 = 1"
  by (simp_all add: eval_defs)



lemma sampled0_fields:
  "stream sampled0 = Some 1" "currentFaces sampled0 = [Face 10 20 50 60 (Some ''Li'')]"
  "pending sampled0 = []" "toasts sampled0 = []"
  "recognize_btn sampled0 =
     \<lparr>disabled = False, spinner = False, caption = PageCaption ''Recognize''\<rparr>"
  by (simp_all add: eval_defs)

lemma asked0_fields:
  "stream asked0 = Some 1" "currentFaces asked0 = [Face 10 20 50 60 (Some ''Li'')]"
  "pending asked0 = [RecognizeReq ''frame2'' (PageCaption ''Recognize'')]" "toasts asked0 = []"
  "recognize_btn asked0 = \<lparr>disabled = True, spinner = True, caption = RecognizingCaption\<rparr>"
  "recognition_result asked0 = None" "sounds asked0 = []"
  by (simp_all add: eval_defs)

lemma released0_fields:
  "stream released0 = None" "\<not> isDetecting released0" "timers released0 = []"
  "pending released0 = [RecognizeReq ''frame2'' (PageCaption ''Recognize'')]"
  "toasts released0 = []"
  "recognize_btn released0 =
     \<lparr>disabled = True, spinner = True, caption = RecognizingCaption\<rparr>"
  "recognition_result released0 = None" "sounds released0 = []"
  by (simp_all add: eval_defs)

lemma two_samples0_fields:
  "pending two_samples0 = [DetectReq ''frame1'', DetectReq ''frame2'']"
  "currentFaces two_samples0 = []"
  by (simp_all add: eval_defs)

lemma photo0_fields:
  "face_image_data photo0 = ''frame1''" "user_id photo0 = []" "pending photo0 = []"
  "toasts photo0 = [(PhotoTaken, Success)]"
  by (simp_all add: eval_defs)

subsection \<open>Release and the handlers of recognition touch different fields\<close>

lemma stopCamera_recognize_then:
  "recognize_then res (stopCamera s) = stopCamera (recognize_then res s)"
  by (simp add: recognize_then_def stopCamera_def stopDetection_def playSound_def showToast_def
        Let_def split: option.splits)

lemma stopCamera_recognize_catch:
  "recognize_catch d (stopCamera s) = stopCamera (recognize_catch d s)"
  by (simp add: recognize_catch_def stopCamera_def stopDetection_def playSound_def showToast_def
        Let_def split: option.splits)

lemma stopCamera_recognize_finally:
  "recognize_finally c (stopCamera s) = stopCamera (recognize_finally c s)"
  by (simp add: recognize_finally_def stopCamera_def stopDetection_def
        Let_def split: option.splits)

lemma stopCamera_pending:
  "(stopCamera s)\<lparr>pending := ps\<rparr> = stopCamera (s\<lparr>pending := ps\<rparr>)"
  "pending (stopCamera s) = pending s"
  by (simp_all add: stopCamera_def stopDetection_def Let_def split: option.splits)

lemma recognize_settled_commutes:
  "recognize_settled rq r (stopCamera s) = stopCamera (recognize_settled rq r s)"
  by (cases r)
     (simp_all add: recognize_settled_def Let_def stopCamera_pending stopCamera_recognize_then
        stopCamera_recognize_catch stopCamera_recognize_finally)

subsection \<open>A handler of bindEvents does reach the controller\<close>

lemma click_register_runs: "click_register s = Inr (registerFace s)"
  by (simp add: click_register_def call_method_def bindEvents_handler_scopes_def
        get_property_def controller_methods_def)

section \<open>The claims\<close>

subsection \<open>C1: the session state machine\<close>

text \<open>
  C1, as the code has it. For every sequence of acquire, start, stop and release, run
  from a state without a detection on record unless a stream is held (the fresh page is
  one), the session state that the controller's fields stand for is the one that the
  state machine of the specification reaches, an operation without a transition leaving
  it where it is. Of the operations without a transition, start from Idle is refused:
  it shows a warning and changes nothing else.
\<close>

theorem session_follows_fsm:
  assumes "loop_on_record s"
  shows "session_of (run ops s) = foldl fsm_step (session_of s) ops \<and>
         (session_of (run ops s) = Idle \<longrightarrow>
            refused (run ops s) (startDetection vd (run ops s)))"
proof -
  have "session_of (run ops s) = Idle \<Longrightarrow> stream (run ops s) = None"
    by (simp add: session_of_def split: option.splits if_splits)
  then have "session_of (run ops s) = Idle \<longrightarrow>
      refused (run ops s) (startDetection vd (run ops s))"
    by (simp add: refused_def startDetection_def showToast_def)
  with session_of_run [OF assms] show ?thesis by simp
qed

theorem session_follows_fsm_witness:
  "loop_on_record page0 \<and>
   session_of (run [Acquire (Granted 1), Start (640, 480), Stop, Release] page0) = Idle \<and>
   refused (run [Acquire (Granted 1), Start (640, 480), Stop, Release] page0)
     (startDetection (640, 480)
        (run [Acquire (Granted 1), Start (640, 480), Stop, Release] page0))"
proof -
  have h: "loop_on_record page0"
    by (simp add: loop_on_record_def page0_def)
  have "foldl fsm_step (session_of page0)
          [Acquire (Granted 1), Start (640, 480), Stop, Release] = Idle"
    by (simp add: session_of_def page0_def fsm_step_def)
  with session_follows_fsm
         [OF h, of "[Acquire (Granted 1), Start (640, 480), Stop, Release]" "(640, 480)"]
  show ?thesis using h by simp
qed

text \<open>
  C1 as the specification words it fails: start while Detecting has no transition, yet
  it is not refused. No notification is shown, and a second interval timer runs beside
  the first.
\<close>

theorem start_while_detecting_counterexample:
  "session_of detecting0 = Detecting \<and>
   fsm (session_of detecting0) (Start (640, 480)) = None \<and>
   \<not> refused detecting0 (perform (Start (640, 480)) detecting0) \<and>
   toasts (perform (Start (640, 480)) detecting0) = toasts detecting0 \<and>
   timers detecting0 = [1] \<and>
   timers (perform (Start (640, 480)) detecting0) = [1, 2]"
  by (simp add: session_of_def refused_def startDetection_def showToast_def detecting0_fields)

subsection \<open>C5: release\<close>




subsection \<open>C2: requests in flight\<close>

text \<open>
  C2, as the code has it. The controller keeps no count of requests in flight and
  refuses none: a recognize call with the camera acquired and a face detected, a
  register call with a frame and a user, and a confirmed roster delete each add their
  request to those in flight, which stay as they are, and notify nothing. Recognize and
  register disable their own button and give it a spinner.
\<close>

theorem requests_not_exclusive:
  "(stream s \<noteq> None \<and> currentFaces s \<noteq> [] \<longrightarrow>
      in_flight (recognizeAttendance vd frame s) =
        in_flight s @ [RecognizeReq frame (caption (recognize_btn s))] \<and>
      toasts (recognizeAttendance vd frame s) = toasts s \<and>
      recognize_btn (recognizeAttendance vd frame s) =
        \<lparr>disabled = True, spinner = True, caption = RecognizingCaption\<rparr>) \<and>
   (face_image_data s \<noteq> [] \<and> user_id s \<noteq> [] \<longrightarrow>
      in_flight (registerFace s) =
        in_flight s @ [RegisterReq (user_id s) (face_image_data s) (caption (register_btn s))] \<and>
      toasts (registerFace s) = toasts s \<and>
      register_btn (registerFace s) =
        \<lparr>disabled = True, spinner = True, caption = RegisteringCaption\<rparr>) \<and>
   in_flight (deleteFaceData True faceId s) = in_flight s @ [RosterDelete faceId] \<and>
   toasts (deleteFaceData True faceId s) = toasts s"
  by (simp add: in_flight_def recognizeAttendance_def registerFace_def deleteFaceData_def Let_def)

theorem requests_not_exclusive_witness:
  "stream asked0 \<noteq> None \<and> currentFaces asked0 \<noteq> [] \<and>
   in_flight asked0 = [RecognizeReq ''frame2'' (PageCaption ''Recognize'')] \<and>
   in_flight (recognizeAttendance (640, 480) ''frame3'' asked0) =
     [RecognizeReq ''frame2'' (PageCaption ''Recognize''),
      RecognizeReq ''frame3'' RecognizingCaption] \<and>
   face_image_data (capturePhoto (640, 480) ''frame4'' asked0\<lparr>user_id := ''u1''\<rparr>) \<noteq> [] \<and>
   user_id (capturePhoto (640, 480) ''frame4'' asked0\<lparr>user_id := ''u1''\<rparr>) \<noteq> [] \<and>
   in_flight (registerFace (capturePhoto (640, 480) ''frame4'' asked0\<lparr>user_id := ''u1''\<rparr>)) =
     [RecognizeReq ''frame2'' (PageCaption ''Recognize''),
      RegisterReq ''u1'' ''frame4'' (PageCaption ''Register'')]"
  using requests_not_exclusive [of asked0 "(640, 480)" "''frame3''" "''9''"]
        requests_not_exclusive
          [of "capturePhoto (640, 480) ''frame4'' asked0\<lparr>user_id := ''u1''\<rparr>"
              "(640, 480)" "''frame3''" "''9''"]
  by (simp add: asked0_fields in_flight_def capturePhoto_def showToast_def)
     (simp add: eval_defs)

text \<open>
  C2 as the specification words it fails: with one recognize request in flight a second
  call is not refused, and two requests are in flight.
\<close>

theorem second_request_counterexample:
  "in_flight asked0 = [RecognizeReq ''frame2'' (PageCaption ''Recognize'')] \<and>
   \<not> refused asked0 (recognizeAttendance (640, 480) ''frame3'' asked0) \<and>
   toasts (recognizeAttendance (640, 480) ''frame3'' asked0) = toasts asked0 \<and>
   length (in_flight (recognizeAttendance (640, 480) ''frame3'' asked0)) = 2"
  by (simp add: in_flight_def refused_def recognizeAttendance_def asked0_fields)

subsection \<open>C3: a completion after release\<close>

text \<open>
  C3, as the code has it. The handlers of a recognize request check nothing before they
  run, and release leaves the request in flight. When the request settles after a
  release, the completion is applied as it would have been before it: releasing first
  and settling then gives the state that settling first and releasing then gives. Every
  completion shows one notification, plays one sound and restores the button; a
  successful one renders the result.
\<close>

theorem completion_applied_after_release:
  "recognize_settled rq r (stopCamera s) = stopCamera (recognize_settled rq r s) \<and>
   length (toasts (recognize_settled rq r s)) = Suc (length (toasts s)) \<and>
   length (sounds (recognize_settled rq r s)) = Suc (length (sounds s)) \<and>
   recognize_btn (recognize_settled rq r s) =
     \<lparr>disabled = False, spinner = False, caption = captured_text rq\<rparr> \<and>
   (\<forall>res. r = Fulfilled res \<and> success res \<longrightarrow>
      recognition_result (recognize_settled rq r s) = Some res)"
proof -
  have "length (toasts (recognize_settled rq r s)) = Suc (length (toasts s)) \<and>
        length (sounds (recognize_settled rq r s)) = Suc (length (sounds s)) \<and>
        recognize_btn (recognize_settled rq r s) =
          \<lparr>disabled = False, spinner = False, caption = captured_text rq\<rparr> \<and>
        (\<forall>res. r = Fulfilled res \<and> success res \<longrightarrow>
           recognition_result (recognize_settled rq r s) = Some res)"
    by (cases r)
       (simp_all add: recognize_settled_def recognize_then_def recognize_catch_def
          recognize_finally_def playSound_def showToast_def Let_def)
  with recognize_settled_commutes show ?thesis by simp
qed

theorem completion_applied_after_release_witness:
  "success matched0 \<and>
   recognize_settled (RecognizeReq ''frame2'' (PageCaption ''Recognize'')) (Fulfilled matched0)
       (stopCamera asked0) =
     stopCamera
       (recognize_settled (RecognizeReq ''frame2'' (PageCaption ''Recognize''))
          (Fulfilled matched0) asked0) \<and>
   recognition_result
       (recognize_settled (RecognizeReq ''frame2'' (PageCaption ''Recognize''))
          (Fulfilled matched0) asked0) = Some matched0"
  using completion_applied_after_release
          [of "RecognizeReq ''frame2'' (PageCaption ''Recognize'')" "Fulfilled matched0" asked0]
  by (simp add: matched0_def)

text \<open>
  C3 as the specification words it fails: the camera is released while the request is in
  flight, the session is Idle, and the completion shows its notification, renders the
  result and changes the button.
\<close>

theorem completion_after_release_counterexample:
  "session_of released0 = Idle \<and>
   pending released0 = [RecognizeReq ''frame2'' (PageCaption ''Recognize'')] \<and>
   toasts released0 = [] \<and>
   toasts (recognize_settled (RecognizeReq ''frame2'' (PageCaption ''Recognize''))
             (Fulfilled matched0) released0) =
     [(RecognizeDone ''check-in'' ''09:00'', Success)] \<and>
   recognition_result released0 = None \<and>
   recognition_result
       (recognize_settled (RecognizeReq ''frame2'' (PageCaption ''Recognize''))
          (Fulfilled matched0) released0) = Some matched0 \<and>
   recognize_btn released0 \<noteq>
     recognize_btn
       (recognize_settled (RecognizeReq ''frame2'' (PageCaption ''Recognize''))
          (Fulfilled matched0) released0)"
  by (simp add: session_of_def released0_fields recognize_settled_def recognize_then_def
        recognize_finally_def playSound_def showToast_def captured_text_def matched0_def Let_def)

subsection \<open>C4: the order of detection results\<close>

text \<open>
  C4, as the code has it. Detection results are applied in the order in which the answers
  arrive: every fulfilled answer of the remote detector overwrites \<open>currentFaces\<close> with
  its faces, whichever sample it answers.
\<close>

theorem result_is_last_arrival:
  "currentFaces (backend_settled rq (Fulfilled payload) s) =
     (case payload of None \<Rightarrow> [] | Some fs \<Rightarrow> fs) \<and>
   pending (backend_settled rq (Fulfilled payload) s) = remove1 rq (pending s)"
  by (simp add: backend_settled_def backend_then_def Let_def)

text \<open>
  C4 as the specification words it fails: two samples are posted, the answer to the
  second is applied, then the answer to the first arrives and replaces it.
\<close>

theorem older_sample_counterexample:
  "pending two_samples0 = [DetectReq ''frame1'', DetectReq ''frame2''] \<and>
   currentFaces
     (backend_settled (DetectReq ''frame2'') (Fulfilled (Some [Face 2 2 5 5 (Some ''new'')]))
        two_samples0) = [Face 2 2 5 5 (Some ''new'')] \<and>
   currentFaces
     (backend_settled (DetectReq ''frame1'') (Fulfilled (Some [Face 1 1 5 5 (Some ''old'')]))
        (backend_settled (DetectReq ''frame2'') (Fulfilled (Some [Face 2 2 5 5 (Some ''new'')]))
           two_samples0)) = [Face 1 1 5 5 (Some ''old'')]"
  by (simp add: two_samples0_fields backend_settled_def backend_then_def Let_def)

subsection \<open>C6: recognize without a detected face\<close>

text \<open>
  C6. \<open>recognizeAttendance\<close> called while \<open>currentFaces\<close> is empty is refused: it shows
  a warning and changes nothing else, so no request is issued and the recognize button
  is neither disabled nor given a spinner. With the camera acquired, the state in which
  samples are taken, the warning is that no face was detected. (Without the camera the
  guard of line 440 answers first, with the warning to start the camera.)
\<close>

theorem recognize_without_face:
  assumes "currentFaces s = []"
  shows "refused s (recognizeAttendance vd frame s) \<and>
         pending (recognizeAttendance vd frame s) = pending s \<and>
         recognize_btn (recognizeAttendance vd frame s) = recognize_btn s \<and>
         (stream s \<noteq> None \<longrightarrow>
            recognizeAttendance vd frame s = showToast NoFaceFound Warning s)"
  using assms by (simp add: refused_def recognizeAttendance_def showToast_def)

theorem recognize_without_face_witness:
  "currentFaces (startCamera (Granted 1) page0) = [] \<and>
   stream (startCamera (Granted 1) page0) \<noteq> None \<and>
   recognizeAttendance (640, 480) ''frame1'' (startCamera (Granted 1) page0) =
     showToast NoFaceFound Warning (startCamera (Granted 1) page0) \<and>
   pending (recognizeAttendance (640, 480) ''frame1'' (startCamera (Granted 1) page0)) = [] \<and>
   \<not> spinner (recognize_btn
       (recognizeAttendance (640, 480) ''frame1'' (startCamera (Granted 1) page0))) \<and>
   \<not> disabled (recognize_btn
       (recognizeAttendance (640, 480) ''frame1'' (startCamera (Granted 1) page0)))"
proof -
  have h: "currentFaces (startCamera (Granted 1) page0) = []"
    by (simp add: startCamera_def page0_def)
  from recognize_without_face [OF h, of "(640, 480)" "''frame1''"] show ?thesis
    using h by (simp add: startCamera_def page0_def showToast_def)
qed

subsection \<open>C7: register with an empty frame or user\<close>

text \<open>
  C7. \<open>registerFace\<close> with an empty image field or an empty user id is refused: it
  shows a warning (for the photo if the image is empty, otherwise for the user) and
  changes nothing else; no request is issued.
\<close>

theorem register_invalid_input:
  assumes "face_image_data s = [] \<or> user_id s = []"
  shows "refused s (registerFace s) \<and>
         pending (registerFace s) = pending s \<and>
         registerFace s =
           showToast (if face_image_data s = [] then PhotoRequired else UserRequired) Warning s"
  using assms by (auto simp: refused_def registerFace_def showToast_def Let_def)

theorem register_invalid_input_witness:
  "face_image_data photo0 = ''frame1'' \<and> user_id photo0 = [] \<and>
   registerFace photo0 = showToast UserRequired Warning photo0 \<and>
   pending (registerFace photo0) = []"
proof -
  have h: "face_image_data photo0 = [] \<or> user_id photo0 = []"
    by (simp add: photo0_fields)
  from register_invalid_input [OF h] show ?thesis
    by (simp add: photo0_fields showToast_def)
qed

subsection \<open>C8: a failed detection\<close>

text \<open>
  C8. When the detection of a tick fails, with the remote detector or with the local
  model, the failure is logged on the console, the timers, the interval on record and
  the detecting flag are as before, and \<open>currentFaces\<close> is as before; the tick itself
  changes neither the timers nor \<open>currentFaces\<close>; a later fulfilled answer replaces the
  result.
\<close>

theorem detection_failure_absorbed:
  "console (backend_settled rq (Rejected d) s) = console s @ [DetectionError] \<and>
   timers (backend_settled rq (Rejected d) s) = timers s \<and>
   detectionInterval (backend_settled rq (Rejected d) s) = detectionInterval s \<and>
   isDetecting (backend_settled rq (Rejected d) s) = isDetecting s \<and>
   currentFaces (backend_settled rq (Rejected d) s) = currentFaces s \<and>
   console (faceapi_settled (Rejected d) s) = console s @ [DetectionError] \<and>
   timers (faceapi_settled (Rejected d) s) = timers s \<and>
   detectionInterval (faceapi_settled (Rejected d) s) = detectionInterval s \<and>
   isDetecting (faceapi_settled (Rejected d) s) = isDetecting s \<and>
   currentFaces (faceapi_settled (Rejected d) s) = currentFaces s \<and>
   timers (tick t frame s) = timers s \<and>
   currentFaces (tick t frame s) = currentFaces s \<and>
   currentFaces (backend_settled rq' (Fulfilled (Some fs)) (backend_settled rq (Rejected d) s)) = fs"
  by (simp add: backend_settled_def backend_then_def faceapi_settled_def console_error_def tick_def
        detectFaces_def detectFacesWithBackend_def detectFacesWithFaceAPI_def Let_def)

subsection \<open>C9: the delete buttons of the roster table\<close>

text \<open>
  C9. In the click handler of a delete button the identifier \<open>self\<close> is bound in none of
  the enclosing function scopes; it resolves to the window, which has no
  \<open>deleteFaceData\<close>. Every click ends in a TypeError before \<open>deleteFaceData\<close> is
  entered, and the state, with the requests in flight, is as before.
\<close>

theorem table_delete_unreachable:
  "resolve ''self'' (table_handler_scopes faceId) = Some WindowObj \<and>
   get_property WindowObj ''deleteFaceData'' = Undefined \<and>
   click_delete confirmed faceId s = Inl TypeError \<and>
   after_handler (click_delete confirmed faceId s) s = s"
  by (simp add: click_delete_def call_method_def table_handler_scopes_def global_scope_def
        get_property_def after_handler_def)

subsection \<open>C10: a registered frame is used once\<close>

text \<open>
  C10. When a registration succeeds, the image field and the preview are emptied; a
  register call that follows at once is refused for want of a photo and issues no
  request.
\<close>

theorem registered_frame_consumed:
  "face_image_data (register_settled rq (Fulfilled ()) s) = [] \<and>
   photo_preview (register_settled rq (Fulfilled ()) s) = [] \<and>
   registerFace (register_settled rq (Fulfilled ()) s) =
     showToast PhotoRequired Warning (register_settled rq (Fulfilled ()) s) \<and>
   in_flight (registerFace (register_settled rq (Fulfilled ()) s)) =
     in_flight (register_settled rq (Fulfilled ()) s)"
proof -
  have 1: "face_image_data (register_settled rq (Fulfilled ()) s) = []"
    by (simp add: register_settled_def register_then_def register_finally_def loadFaceData_def
          showToast_def Let_def)
  have 2: "photo_preview (register_settled rq (Fulfilled ()) s) = []"
    by (simp add: register_settled_def register_then_def register_finally_def loadFaceData_def
          showToast_def Let_def)
  have 3: "registerFace (register_settled rq (Fulfilled ()) s) =
     showToast PhotoRequired Warning (register_settled rq (Fulfilled ()) s)"
    using 1 by (simp add: registerFace_def Let_def)
  from 1 2 3 show ?thesis by (simp add: in_flight_def showToast_def)
qed

end
